theory Spec2Isabelle
  imports Main
begin

section \<open>Argument synthesis of the bake action (src/context.ts)\<close>

text \<open>
  The embedding follows \<^verbatim>\<open>src/context.ts\<close>. Strings are \<^typ>\<open>string\<close>; a JavaScript
  string is truthy exactly when it is non-empty. The exception of line 76 is the value
  \<open>Inl (Error msg)\<close> of a sum type. \<^verbatim>\<open>getBakeArgs\<close> mutates \<^verbatim>\<open>inputs.allow\<close> in place
  (line 68), so the functions that reach it take the input record and return it, updated,
  beside their result; the record comes back updated also when line 76 throws, because
  the push of line 68 has already happened by then. The list fields of a record are
  separate arrays (\<^verbatim>\<open>getInputs\<close> builds each one by its own call of
  \<^verbatim>\<open>Util.getInputList\<close>), so a push onto \<^verbatim>\<open>allow\<close> changes no other field, and a record
  with value semantics is enough.

  The collaborators that live outside the repository (the version queries of the toolkit,
  the metadata path, \<^verbatim>\<open>Bake.hasDockerExporter\<close>, \<^verbatim>\<open>Build.resolveProvenanceAttrs\<close>,
  \<^verbatim>\<open>Util.parseBool\<close>, the process environment, the GitHub event payload, \<^verbatim>\<open>core.getInput\<close>,
  \<^verbatim>\<open>Context.gitContext\<close> and the handlebars renderer) are parameters, collected in
  records. \<^verbatim>\<open>Util.parseBool\<close> throws on a string that is not one of the spellings it knows,
  and the handlebars renderer throws on a template it cannot parse; both return a sum here,
  and no handler in the file catches either. A version query is represented by its answer:
  every statement below is about runs in which the queries it names have answered.
\<close>

subsection \<open>Data\<close>

datatype error = Error string

text \<open>Interface \<^verbatim>\<open>Inputs\<close>, lines 13 to 29. The field \<^verbatim>\<open>set\<close> is \<open>set_field\<close> here.\<close>

record Inputs =
  builder :: string
  workdir :: string
  source :: string
  allow :: "string list"
  call :: string
  files :: "string list"
  no_cache :: bool
  pull :: bool
  load :: bool
  provenance :: string
  push :: bool
  sbom :: string
  set_field :: "string list"
  targets :: "string list"
  github_token :: string

text \<open>
  The part of \<^verbatim>\<open>Toolkit\<close> that the synthesis queries: \<^verbatim>\<open>toolkit.buildx.versionSatisfies\<close>
  (by constraint), \<^verbatim>\<open>toolkit.buildkit.versionSatisfies\<close> (by builder name and constraint)
  and \<^verbatim>\<open>toolkit.buildxBake.getMetadataFilePath()\<close>.
\<close>

record Toolkit =
  buildx_versionSatisfies :: "string \<Rightarrow> bool"
  buildkit_versionSatisfies :: "string \<Rightarrow> string \<Rightarrow> bool"
  getMetadataFilePath :: string

text \<open>
  \<^verbatim>\<open>GitHub.context.payload.repository\<close> may be absent, and so may its \<^verbatim>\<open>private\<close> member.
\<close>

record repository =
  is_private :: "bool option"

text \<open>
  What the synthesis reads from its surroundings; \<open>'d\<close> is the type of a Bake Definition,
  which the code only hands to \<^verbatim>\<open>Bake.hasDockerExporter\<close>.
\<close>

record 'd Ambient =
  BUILDX_NO_DEFAULT_ATTESTATIONS :: "string option"
  parseBool :: "string \<Rightarrow> error + bool"
  hasDockerExporter :: "'d \<Rightarrow> bool \<Rightarrow> bool"
  payload_repository :: "repository option"
  resolveProvenanceAttrs :: "string \<Rightarrow> string"

text \<open>
  What \<^verbatim>\<open>getSourceInput\<close> reads: \<^verbatim>\<open>core.getInput\<close>, \<^verbatim>\<open>Context.gitContext()\<close> and the
  handlebars renderer, which takes the template and the value bound to
  \<^verbatim>\<open>defaultContext\<close> and returns the rendered string or throws.
\<close>

record SourceEnv =
  getInput :: "string \<Rightarrow> string"
  gitContext :: string
  handlebars_compile :: "string \<Rightarrow> string \<Rightarrow> error + string"

subsection \<open>Operations\<close>

text \<open>
  \<^verbatim>\<open>Util.asyncForEach(array, callback)\<close> awaits the callback on each element in index
  order; the callbacks of this file push onto \<^verbatim>\<open>args\<close>, which is the state threaded here.
\<close>

definition asyncForEach :: "'a list \<Rightarrow> ('a \<Rightarrow> 's \<Rightarrow> 's) \<Rightarrow> 's \<Rightarrow> 's" where
  "asyncForEach array callback s = fold callback array s"

text \<open>
  Lines 145 to 150. The environment variable is absent (\<open>None\<close>) or a string; when it is
  a non-empty string the result is that of \<^verbatim>\<open>Util.parseBool\<close>, an exception included.
\<close>

definition noDefaultAttestations :: "'d Ambient \<Rightarrow> error + bool" where
  "noDefaultAttestations amb =
     (case BUILDX_NO_DEFAULT_ATTESTATIONS amb of
        None \<Rightarrow> Inr False
      | Some v \<Rightarrow> if v \<noteq> [] then parseBool amb v else Inr False)"

text \<open>\<^verbatim>\<open>GitHub.context.payload.repository?.private ?? false\<close>, line 96.\<close>

definition repository_private :: "'d Ambient \<Rightarrow> bool" where
  "repository_private amb =
     (case payload_repository amb of
        None \<Rightarrow> False
      | Some r \<Rightarrow> (case is_private r of None \<Rightarrow> False | Some b \<Rightarrow> b))"

text \<open>
  Lines 60 to 110. The first component of the result is the input record as left behind.
  The condition of line 92 calls \<^verbatim>\<open>noDefaultAttestations()\<close> first, so an exception of
  \<^verbatim>\<open>Util.parseBool\<close> leaves the function there, after the push of line 68.
\<close>

definition getBakeArgs ::
  "Inputs \<Rightarrow> 'd \<Rightarrow> Toolkit \<Rightarrow> 'd Ambient \<Rightarrow> Inputs \<times> (error + string list)" where
  "getBakeArgs inputs def toolkit amb =
     (let args = [''bake''];
          args = (if source inputs \<noteq> [] then args @ [source inputs] else args);
          (inputs, args) =
            (if buildx_versionSatisfies toolkit ''>=0.17.0'' then
               let inputs = (if buildx_versionSatisfies toolkit ''>=0.18.0''
                             then inputs\<lparr>allow := allow inputs @ [''fs=*'']\<rparr>
                             else inputs)
               in (inputs,
                   asyncForEach (allow inputs) (\<lambda>a args. args @ [''--allow'', a]) args)
             else (inputs, args))
      in case (if call inputs \<noteq> [] then
                 (if \<not> buildx_versionSatisfies toolkit ''>=0.16.0''
                  then Inl (Error ''Buildx >= 0.16.0 is required to use the call flag.'')
                  else Inr (args @ [''--call'', call inputs]))
               else Inr args) of
           Inl e \<Rightarrow> (inputs, Inl e)
         | Inr args \<Rightarrow>
             (let args = asyncForEach (files inputs) (\<lambda>file args. args @ [''--file'', file]) args;
                  args = asyncForEach (set_field inputs) (\<lambda>s args. args @ [''--set'', s]) args;
                  args = (if buildx_versionSatisfies toolkit ''>=0.6.0''
                          then args @ [''--metadata-file'', getMetadataFilePath toolkit]
                          else args)
              in case (if buildx_versionSatisfies toolkit ''>=0.10.0'' then
                         (case (if provenance inputs \<noteq> [] then
                                  Inr (args @ [''--provenance'', provenance inputs])
                                else
                                  (case noDefaultAttestations amb of
                                     Inl e \<Rightarrow> Inl e
                                   | Inr optOut \<Rightarrow>
                                       Inr (if \<not> optOut
                                               \<and> buildkit_versionSatisfies toolkit (builder inputs)
                                                    ''>=0.11.0''
                                               \<and> \<not> hasDockerExporter amb def (load inputs) then
                                              (if repository_private amb then
                                                 args @ [''--provenance'',
                                                         resolveProvenanceAttrs amb
                                                           ''mode=min,inline-only=true'']
                                               else
                                                 args @ [''--provenance'',
                                                         resolveProvenanceAttrs amb ''mode=max''])
                                            else args))) of
                            Inl e \<Rightarrow> Inl e
                          | Inr args \<Rightarrow>
                              Inr (if sbom inputs \<noteq> [] then args @ [''--sbom'', sbom inputs]
                                   else args))
                       else Inr args) of
                   Inl e \<Rightarrow> (inputs, Inl e)
                 | Inr args \<Rightarrow> (inputs, Inr args)))"

text \<open>Lines 112 to 130.\<close>

definition getCommonArgs :: "Inputs \<Rightarrow> string list" where
  "getCommonArgs inputs =
     (let args = [];
          args = (if no_cache inputs then args @ [''--no-cache''] else args);
          args = (if builder inputs \<noteq> [] then args @ [''--builder'', builder inputs] else args);
          args = (if pull inputs then args @ [''--pull''] else args);
          args = (if load inputs then args @ [''--load''] else args);
          args = (if push inputs then args @ [''--push''] else args)
      in args)"

text \<open>
  Lines 51 to 58. The array literal is evaluated left to right: \<^verbatim>\<open>getBakeArgs\<close> runs first
  (and may throw), then \<^verbatim>\<open>getCommonArgs(inputs)\<close> and \<^verbatim>\<open>inputs.targets\<close> read the record
  as \<^verbatim>\<open>getBakeArgs\<close> left it.
\<close>

definition getArgs ::
  "Inputs \<Rightarrow> 'd \<Rightarrow> Toolkit \<Rightarrow> 'd Ambient \<Rightarrow> Inputs \<times> (error + string list)" where
  "getArgs inputs def toolkit amb =
     (case getBakeArgs inputs def toolkit amb of
        (inputs, Inl e) \<Rightarrow> (inputs, Inl e)
      | (inputs, Inr bakeArgs) \<Rightarrow>
          (inputs, Inr (bakeArgs @ getCommonArgs inputs @ targets inputs)))"

text \<open>Lines 132 to 143. There is no handler around the renderer.\<close>

definition getSourceInput :: "SourceEnv \<Rightarrow> string \<Rightarrow> error + string" where
  "getSourceInput env name =
     (case handlebars_compile env (getInput env name) (gitContext env) of
        Inl e \<Rightarrow> Inl e
      | Inr src \<Rightarrow>
          (let src = (if src = [] then gitContext env else src);
               src = (if src = ''.'' then [] else src)
           in Inr src))"

subsection \<open>The output, group by group\<close>

text \<open>
  The definitions of this subsection are not code of the repository. They name the groups
  of tokens that the blocks of \<^verbatim>\<open>getBakeArgs\<close> push, and the exception it leaves with if
  any, so that a property can say where in the output a token stands; lemma
  \<open>getBakeArgs_result\<close> below proves that the function throws exactly the error of
  \<open>failure\<close> and otherwise computes exactly the concatenation of the groups.
\<close>

definition flagPairs :: "string \<Rightarrow> string list \<Rightarrow> string list" where
  "flagPairs flag xs = concat (map (\<lambda>x. [flag, x]) xs)"

definition sourceTokens :: "Inputs \<Rightarrow> string list" where
  "sourceTokens inputs = (if source inputs \<noteq> [] then [source inputs] else [])"

definition allowAfter :: "Toolkit \<Rightarrow> Inputs \<Rightarrow> string list" where
  "allowAfter toolkit inputs =
     (if buildx_versionSatisfies toolkit ''>=0.17.0'' \<and> buildx_versionSatisfies toolkit ''>=0.18.0''
      then allow inputs @ [''fs=*''] else allow inputs)"

definition allowTokens :: "Toolkit \<Rightarrow> Inputs \<Rightarrow> string list" where
  "allowTokens toolkit inputs =
     (if buildx_versionSatisfies toolkit ''>=0.17.0''
      then flagPairs ''--allow'' (allowAfter toolkit inputs) else [])"

definition callTokens :: "Inputs \<Rightarrow> string list" where
  "callTokens inputs = (if call inputs \<noteq> [] then [''--call'', call inputs] else [])"

definition metadataTokens :: "Toolkit \<Rightarrow> string list" where
  "metadataTokens toolkit =
     (if buildx_versionSatisfies toolkit ''>=0.6.0''
      then [''--metadata-file'', getMetadataFilePath toolkit] else [])"

definition defaultProvenanceTokens :: "Inputs \<Rightarrow> 'd \<Rightarrow> Toolkit \<Rightarrow> 'd Ambient \<Rightarrow> string list" where
  "defaultProvenanceTokens inputs def toolkit amb =
     (if noDefaultAttestations amb = Inr False
         \<and> buildkit_versionSatisfies toolkit (builder inputs) ''>=0.11.0''
         \<and> \<not> hasDockerExporter amb def (load inputs)
      then [''--provenance'',
            resolveProvenanceAttrs amb
              (if repository_private amb then ''mode=min,inline-only=true'' else ''mode=max'')]
      else [])"

definition provenanceTokens :: "Inputs \<Rightarrow> 'd \<Rightarrow> Toolkit \<Rightarrow> 'd Ambient \<Rightarrow> string list" where
  "provenanceTokens inputs def toolkit amb =
     (if provenance inputs \<noteq> [] then [''--provenance'', provenance inputs]
      else defaultProvenanceTokens inputs def toolkit amb)"

definition sbomTokens :: "Inputs \<Rightarrow> string list" where
  "sbomTokens inputs = (if sbom inputs \<noteq> [] then [''--sbom'', sbom inputs] else [])"

definition attestationTokens :: "Inputs \<Rightarrow> 'd \<Rightarrow> Toolkit \<Rightarrow> 'd Ambient \<Rightarrow> string list" where
  "attestationTokens inputs def toolkit amb =
     (if buildx_versionSatisfies toolkit ''>=0.10.0''
      then provenanceTokens inputs def toolkit amb @ sbomTokens inputs else [])"

definition callRefused :: "Toolkit \<Rightarrow> Inputs \<Rightarrow> bool" where
  "callRefused toolkit inputs =
     (call inputs \<noteq> [] \<and> \<not> buildx_versionSatisfies toolkit ''>=0.16.0'')"

definition failure :: "Inputs \<Rightarrow> Toolkit \<Rightarrow> 'd Ambient \<Rightarrow> error option" where
  "failure inputs toolkit amb =
     (if callRefused toolkit inputs
      then Some (Error ''Buildx >= 0.16.0 is required to use the call flag.'')
      else if buildx_versionSatisfies toolkit ''>=0.10.0'' \<and> provenance inputs = []
      then (case noDefaultAttestations amb of Inl e \<Rightarrow> Some e | Inr b \<Rightarrow> None)
      else None)"

definition bakeTokens :: "Inputs \<Rightarrow> 'd \<Rightarrow> Toolkit \<Rightarrow> 'd Ambient \<Rightarrow> string list" where
  "bakeTokens inputs def toolkit amb =
     ''bake'' # sourceTokens inputs @ allowTokens toolkit inputs @ callTokens inputs
       @ flagPairs ''--file'' (files inputs) @ flagPairs ''--set'' (set_field inputs)
       @ metadataTokens toolkit @ attestationTokens inputs def toolkit amb"

subsection \<open>Concrete inputs\<close>

text \<open>
  The record of the end-to-end example of the specification (section 8), with the working
  directory \<open>.\<close> that \<^verbatim>\<open>getInputs\<close> supplies by default; records derived from it; and
  collaborators to run the functions on. A Bake Definition is represented by one boolean,
  whether one of its targets has an output of type docker; the toolkit's
  \<^verbatim>\<open>Bake.hasDockerExporter(def, load)\<close> answers yes when \<^verbatim>\<open>load\<close> is set or the definition
  has such an output. \<open>parseBool_table\<close> is the table of \<^verbatim>\<open>Util.parseBool\<close>: six spellings
  of true, six of false, and an exception for every other string.
\<close>

definition example_inputs :: Inputs where
  "example_inputs =
     \<lparr>builder = [], workdir = ''.'', source = [], allow = [], call = [],
      files = [''docker-bake.hcl''], no_cache = False, pull = False, load = True,
      provenance = [], push = False, sbom = [], set_field = [], targets = [''app''],
      github_token = []\<rparr>"

definition toolkit_satisfying :: "string list \<Rightarrow> Toolkit" where
  "toolkit_satisfying constraints =
     \<lparr>buildx_versionSatisfies = (\<lambda>c. c \<in> set constraints),
      buildkit_versionSatisfies = (\<lambda>b c. c = ''>=0.11.0''),
      getMetadataFilePath = ''/tmp/metadata.json''\<rparr>"

definition toolkit_recent :: Toolkit where
  "toolkit_recent =
     toolkit_satisfying [''>=0.6.0'', ''>=0.10.0'', ''>=0.16.0'', ''>=0.17.0'', ''>=0.18.0'']"

definition parseBool_table :: "string \<Rightarrow> error + bool" where
  "parseBool_table s =
     (if s \<in> set [''1'', ''t'', ''T'', ''true'', ''TRUE'', ''True''] then Inr True
      else if s \<in> set [''0'', ''f'', ''F'', ''false'', ''FALSE'', ''False''] then Inr False
      else Inl (Error (''parseBool syntax error: '' @ s)))"

definition ambient_with :: "string option \<Rightarrow> repository option \<Rightarrow> bool Ambient" where
  "ambient_with optout repo =
     \<lparr>BUILDX_NO_DEFAULT_ATTESTATIONS = optout,
      parseBool = parseBool_table,
      hasDockerExporter = (\<lambda>d l. l \<or> d),
      payload_repository = repo,
      resolveProvenanceAttrs = (\<lambda>attrs. attrs @ '',builder-id=run'')\<rparr>"

definition ambient_public :: "bool Ambient" where
  "ambient_public = ambient_with None (Some \<lparr>is_private = Some False\<rparr>)"

definition source_env :: "string \<Rightarrow> string \<Rightarrow> SourceEnv" where
  "source_env raw ctx =
     \<lparr>getInput = (\<lambda>name. if name = ''source'' then raw else []),
      gitContext = ctx,
      handlebars_compile =
        (\<lambda>template defaultContext.
           if template = ''{{defaultContext}}'' then Inr defaultContext
           else if CHR ''{'' \<in> set template then Inl (Error ''Parse error'')
           else Inr template)\<rparr>"

section \<open>Properties\<close>

subsection \<open>What the functions compute\<close>

lemma asyncForEach_push: "asyncForEach xs (\<lambda>x args. args @ [flag, x]) args = args @ flagPairs flag xs"
  unfolding asyncForEach_def flagPairs_def
  by (induction xs arbitrary: args) simp_all

lemma flagPairs_append: "flagPairs flag (xs @ ys) = flagPairs flag xs @ flagPairs flag ys"
  by (simp add: flagPairs_def)

lemma flagPairs_simps: "flagPairs flag [] = []" "flagPairs flag (x # xs) = flag # x # flagPairs flag xs"
  by (simp_all add: flagPairs_def)

lemma set_flagPairs: "set (flagPairs flag xs) \<subseteq> insert flag (set xs)"
  by (induction xs) (auto simp: flagPairs_simps)

lemma push_if:
  "(if c then args @ xs else args) = args @ (if c then xs else [])"
  "(if c then args @ xs else args @ ys) = args @ (if c then xs else ys)"
  by simp_all

lemma getBakeArgs_inputs:
  "fst (getBakeArgs inputs def toolkit amb) = inputs\<lparr>allow := allowAfter toolkit inputs\<rparr>"
  unfolding getBakeArgs_def
  apply (simp only: push_if asyncForEach_push)
  apply (cases "buildx_versionSatisfies toolkit ''>=0.17.0''";
         cases "buildx_versionSatisfies toolkit ''>=0.18.0''";
         cases "call inputs = []";
         cases "buildx_versionSatisfies toolkit ''>=0.16.0''";
         cases "buildx_versionSatisfies toolkit ''>=0.10.0''";
         cases "provenance inputs = []";
         cases "noDefaultAttestations amb")
  apply (simp_all add: allowAfter_def Let_def)
  done

lemma getBakeArgs_result:
  "snd (getBakeArgs inputs def toolkit amb)
     = (case failure inputs toolkit amb of
          Some e \<Rightarrow> Inl e
        | None \<Rightarrow> Inr (bakeTokens inputs def toolkit amb))"
  unfolding getBakeArgs_def
  apply (simp only: push_if asyncForEach_push)
  apply (cases "buildx_versionSatisfies toolkit ''>=0.17.0''";
         cases "buildx_versionSatisfies toolkit ''>=0.18.0''";
         cases "call inputs = []";
         cases "buildx_versionSatisfies toolkit ''>=0.16.0''";
         cases "buildx_versionSatisfies toolkit ''>=0.10.0''";
         cases "provenance inputs = []";
         cases "noDefaultAttestations amb")
  apply (simp_all add: failure_def callRefused_def bakeTokens_def sourceTokens_def allowTokens_def
      allowAfter_def callTokens_def metadataTokens_def attestationTokens_def provenanceTokens_def
      defaultProvenanceTokens_def sbomTokens_def Let_def)
  done

lemma getCommonArgs_allow: "getCommonArgs (inputs\<lparr>allow := xs\<rparr>) = getCommonArgs inputs"
  by (simp add: getCommonArgs_def)

lemma getArgs_inputs:
  "fst (getArgs inputs def toolkit amb) = inputs\<lparr>allow := allowAfter toolkit inputs\<rparr>"
proof -
  obtain i r where b: "getBakeArgs inputs def toolkit amb = (i, r)"
    by (cases "getBakeArgs inputs def toolkit amb")
  from getBakeArgs_inputs [of inputs def toolkit amb] b
  have "i = inputs\<lparr>allow := allowAfter toolkit inputs\<rparr>" by simp
  with b show ?thesis by (cases r) (simp_all add: getArgs_def)
qed

lemma getArgs_result:
  "snd (getArgs inputs def toolkit amb)
     = (case failure inputs toolkit amb of
          Some e \<Rightarrow> Inl e
        | None \<Rightarrow> Inr (bakeTokens inputs def toolkit amb @ getCommonArgs inputs
                        @ targets inputs))"
proof -
  obtain i r where b: "getBakeArgs inputs def toolkit amb = (i, r)"
    by (cases "getBakeArgs inputs def toolkit amb")
  from getBakeArgs_result [of inputs def toolkit amb] b
  have r: "r = (case failure inputs toolkit amb of
                  Some e \<Rightarrow> Inl e
                | None \<Rightarrow> Inr (bakeTokens inputs def toolkit amb))"
    by simp
  from getBakeArgs_inputs [of inputs def toolkit amb] b
  have i: "i = inputs\<lparr>allow := allowAfter toolkit inputs\<rparr>" by simp
  from b r i show ?thesis
    by (cases "failure inputs toolkit amb") (simp_all add: getArgs_def getCommonArgs_allow)
qed

lemma getArgs_tokens:
  assumes "failure inputs toolkit amb = None"
  shows "snd (getArgs inputs def toolkit amb)
           = Inr (bakeTokens inputs def toolkit amb @ getCommonArgs inputs @ targets inputs)"
  using assms getArgs_result [of inputs def toolkit amb] by simp

lemma getArgs_failure:
  assumes "failure inputs toolkit amb = Some e"
  shows "snd (getArgs inputs def toolkit amb) = Inl e"
  using assms getArgs_result [of inputs def toolkit amb] by simp

lemma getArgs_Inr_iff:
  "(\<exists>args. snd (getArgs inputs def toolkit amb) = Inr args) \<longleftrightarrow> failure inputs toolkit amb = None"
  using getArgs_result [of inputs def toolkit amb]
  by (cases "failure inputs toolkit amb") simp_all

lemma failure_None_iff:
  "failure inputs toolkit amb = None \<longleftrightarrow>
     \<not> (call inputs \<noteq> [] \<and> \<not> buildx_versionSatisfies toolkit ''>=0.16.0'')
     \<and> \<not> (buildx_versionSatisfies toolkit ''>=0.10.0'' \<and> provenance inputs = []
           \<and> isl (noDefaultAttestations amb))"
  by (cases "noDefaultAttestations amb") (auto simp: failure_def callRefused_def)

lemma isl_noDefaultAttestations:
  "isl (noDefaultAttestations amb) \<longleftrightarrow>
     (\<exists>v. BUILDX_NO_DEFAULT_ATTESTATIONS amb = Some v \<and> v \<noteq> [] \<and> isl (parseBool amb v))"
  by (auto simp: noDefaultAttestations_def split: option.splits)

subsection \<open>The end-to-end example\<close>

text \<open>
  Claim C1. On the record of the end-to-end example (any working directory \<open>w\<close>), with
  a toolkit whose orchestrator satisfies \<open>>=0.6.0\<close>, \<open>>=0.10.0\<close>, \<open>>=0.16.0\<close>,
  \<open>>=0.17.0\<close> and \<open>>=0.18.0\<close> and whose backend satisfies \<open>>=0.11.0\<close>, the opt-out
  variable unset, a definition that uses the docker exporter under \<open>load = true\<close> and a public
  repository, \<open>getArgs\<close> returns exactly \<open>bake --allow fs=* --file docker-bake.hcl
  --metadata-file p --load app\<close>, where \<open>p\<close> is the metadata path. No token of that list
  is \<open>--provenance\<close>, unless the metadata path itself is spelled so.
\<close>

theorem getArgs_end_to_end:
  assumes "buildx_versionSatisfies toolkit ''>=0.6.0''"
      and "buildx_versionSatisfies toolkit ''>=0.10.0''"
      and "buildx_versionSatisfies toolkit ''>=0.16.0''"
      and "buildx_versionSatisfies toolkit ''>=0.17.0''"
      and "buildx_versionSatisfies toolkit ''>=0.18.0''"
      and "buildkit_versionSatisfies toolkit [] ''>=0.11.0''"
      and "BUILDX_NO_DEFAULT_ATTESTATIONS amb = None"
      and "hasDockerExporter amb def True"
      and "payload_repository amb = Some \<lparr>is_private = Some False\<rparr>"
  shows "\<exists>args.
           snd (getArgs
                  \<lparr>builder = [], workdir = w, source = [], allow = [], call = [],
                   files = [''docker-bake.hcl''], no_cache = False, pull = False, load = True,
                   provenance = [], push = False, sbom = [], set_field = [],
                   targets = [''app''], github_token = []\<rparr>
                  def toolkit amb) = Inr args
         \<and> args = [''bake'', ''--allow'', ''fs=*'', ''--file'', ''docker-bake.hcl'',
                   ''--metadata-file'', getMetadataFilePath toolkit, ''--load'', ''app'']
         \<and> (getMetadataFilePath toolkit \<noteq> ''--provenance'' \<longrightarrow> ''--provenance'' \<notin> set args)"
proof -
  let ?inputs = "\<lparr>builder = [], workdir = w, source = [], allow = [], call = [],
                   files = [''docker-bake.hcl''], no_cache = False, pull = False, load = True,
                   provenance = [], push = False, sbom = [], set_field = [],
                   targets = [''app''], github_token = []\<rparr>"
  from assms(7) have n: "noDefaultAttestations amb = Inr False"
    by (simp add: noDefaultAttestations_def)
  then have "failure ?inputs toolkit amb = None"
    by (simp add: failure_def callRefused_def)
  from getArgs_tokens [OF this, of def] assms n
  have "snd (getArgs ?inputs def toolkit amb)
          = Inr [''bake'', ''--allow'', ''fs=*'', ''--file'', ''docker-bake.hcl'',
                 ''--metadata-file'', getMetadataFilePath toolkit, ''--load'', ''app'']"
    by (simp add: bakeTokens_def sourceTokens_def allowTokens_def allowAfter_def callTokens_def
        metadataTokens_def attestationTokens_def provenanceTokens_def defaultProvenanceTokens_def
        sbomTokens_def flagPairs_simps getCommonArgs_def)
  then show ?thesis by simp
qed

theorem getArgs_end_to_end_witness:
  "buildx_versionSatisfies toolkit_recent ''>=0.6.0''
   \<and> buildx_versionSatisfies toolkit_recent ''>=0.10.0''
   \<and> buildx_versionSatisfies toolkit_recent ''>=0.16.0''
   \<and> buildx_versionSatisfies toolkit_recent ''>=0.17.0''
   \<and> buildx_versionSatisfies toolkit_recent ''>=0.18.0''
   \<and> buildkit_versionSatisfies toolkit_recent [] ''>=0.11.0''
   \<and> BUILDX_NO_DEFAULT_ATTESTATIONS ambient_public = None
   \<and> hasDockerExporter ambient_public False True
   \<and> payload_repository ambient_public = Some \<lparr>is_private = Some False\<rparr>
   \<and> snd (getArgs example_inputs False toolkit_recent ambient_public)
       = Inr [''bake'', ''--allow'', ''fs=*'', ''--file'', ''docker-bake.hcl'',
              ''--metadata-file'', ''/tmp/metadata.json'', ''--load'', ''app'']"
  using getArgs_end_to_end [of toolkit_recent ambient_public False "''.''"]
  by (simp add: example_inputs_def toolkit_recent_def toolkit_satisfying_def ambient_public_def
      ambient_with_def)

subsection \<open>The three phases\<close>

text \<open>
  Claim C2. Whenever the synthesis succeeds, the result of \<open>getArgs\<close> is the list that
  \<open>getBakeArgs\<close> returns on the same record, followed by the list of \<open>getCommonArgs\<close>,
  followed by \<open>targets\<close> itself, entry by entry, with nothing put before an entry and no
  entry dropped; and \<open>getArgs\<close> succeeds whenever \<open>getBakeArgs\<close> does. The common
  arguments and the targets are those of the record as the caller passed it: the push onto
  \<open>allow\<close> that \<open>getBakeArgs\<close> may perform does not reach them.
\<close>

theorem getArgs_concatenation:
  "snd (getArgs inputs def toolkit amb) = Inr args \<longleftrightarrow>
   (\<exists>bakeArgs. snd (getBakeArgs inputs def toolkit amb) = Inr bakeArgs
       \<and> args = bakeArgs @ getCommonArgs inputs @ targets inputs)"
  using getArgs_result [of inputs def toolkit amb] getBakeArgs_result [of inputs def toolkit amb]
  by (cases "failure inputs toolkit amb") auto

theorem getArgs_concatenation_witness:
  "snd (getArgs example_inputs False toolkit_recent ambient_public)
     = Inr ([''bake'', ''--allow'', ''fs=*'', ''--file'', ''docker-bake.hcl'',
             ''--metadata-file'', ''/tmp/metadata.json''] @ [''--load''] @ [''app''])
   \<and> snd (getBakeArgs example_inputs False toolkit_recent ambient_public)
     = Inr [''bake'', ''--allow'', ''fs=*'', ''--file'', ''docker-bake.hcl'',
            ''--metadata-file'', ''/tmp/metadata.json'']
   \<and> getCommonArgs example_inputs = [''--load'']
   \<and> targets example_inputs = [''app'']"
proof -
  have b: "snd (getBakeArgs example_inputs False toolkit_recent ambient_public)
     = Inr [''bake'', ''--allow'', ''fs=*'', ''--file'', ''docker-bake.hcl'',
            ''--metadata-file'', ''/tmp/metadata.json'']"
    by (simp add: getBakeArgs_def asyncForEach_def example_inputs_def toolkit_recent_def
        toolkit_satisfying_def ambient_public_def ambient_with_def noDefaultAttestations_def)
  have c: "getCommonArgs example_inputs = [''--load'']"
    by (simp add: getCommonArgs_def example_inputs_def)
  have t: "targets example_inputs = [''app'']"
    by (simp add: example_inputs_def)
  from b c t getArgs_concatenation [of example_inputs False toolkit_recent ambient_public
      "[''bake'', ''--allow'', ''fs=*'', ''--file'', ''docker-bake.hcl'',
             ''--metadata-file'', ''/tmp/metadata.json''] @ [''--load''] @ [''app'']"]
  show ?thesis by simp
qed

subsection \<open>When the synthesis fails\<close>

text \<open>
  Claim C3, as stated, fails: the test of the call flag is not the only place where
  \<open>getArgs\<close> throws. With an empty \<open>call\<close>, an empty \<open>provenance\<close>, an orchestrator
  that satisfies \<open>>=0.10.0\<close> and the environment variable
  \<open>BUILDX_NO_DEFAULT_ATTESTATIONS\<close> set to \<open>yes\<close>, line 147 hands \<open>yes\<close> to
  \<^verbatim>\<open>Util.parseBool\<close>, which throws, and nothing catches it.
\<close>

theorem counter_fails_on_unparsable_opt_out:
  "call example_inputs = []
   \<and> buildx_versionSatisfies toolkit_recent ''>=0.16.0''
   \<and> snd (getArgs example_inputs False toolkit_recent
            (ambient_with (Some ''yes'') (Some \<lparr>is_private = Some False\<rparr>)))
       = Inl (Error ''parseBool syntax error: yes'')"
  by (simp add: getArgs_def getBakeArgs_def asyncForEach_def example_inputs_def
      toolkit_recent_def toolkit_satisfying_def ambient_with_def noDefaultAttestations_def
      parseBool_table_def)

text \<open>
  Claim C3, amended. For answers of the version queries, \<open>getArgs\<close> throws exactly when
  \<open>call\<close> is non-empty and the orchestrator does not satisfy \<open>>=0.16.0\<close>, or the
  orchestrator satisfies \<open>>=0.10.0\<close>, \<open>provenance\<close> is empty and the environment
  variable \<open>BUILDX_NO_DEFAULT_ATTESTATIONS\<close> is a non-empty string that
  \<^verbatim>\<open>Util.parseBool\<close> rejects. In the first case the exception is the one of line 76 and
  there is no token list. When \<open>call\<close> is non-empty, the orchestrator satisfies
  \<open>>=0.16.0\<close> and \<open>getArgs\<close> returns, the list contains \<open>--call\<close> immediately followed
  by the value of \<open>call\<close>.
\<close>

theorem call_capability_gate:
  "(isl (snd (getArgs inputs def toolkit amb)) \<longleftrightarrow>
      (call inputs \<noteq> [] \<and> \<not> buildx_versionSatisfies toolkit ''>=0.16.0'')
      \<or> (buildx_versionSatisfies toolkit ''>=0.10.0'' \<and> provenance inputs = []
          \<and> (\<exists>v. BUILDX_NO_DEFAULT_ATTESTATIONS amb = Some v \<and> v \<noteq> []
                   \<and> isl (parseBool amb v))))
   \<and> (call inputs \<noteq> [] \<and> \<not> buildx_versionSatisfies toolkit ''>=0.16.0'' \<longrightarrow>
        snd (getArgs inputs def toolkit amb)
          = Inl (Error ''Buildx >= 0.16.0 is required to use the call flag.''))
   \<and> (call inputs \<noteq> [] \<and> buildx_versionSatisfies toolkit ''>=0.16.0'' \<longrightarrow>
        (\<forall>args. snd (getArgs inputs def toolkit amb) = Inr args \<longrightarrow>
           (\<exists>pre post. args = pre @ [''--call'', call inputs] @ post)))"
proof (intro conjI impI allI)
  have "isl (snd (getArgs inputs def toolkit amb)) \<longleftrightarrow> failure inputs toolkit amb \<noteq> None"
    using getArgs_result [of inputs def toolkit amb]
    by (cases "failure inputs toolkit amb") simp_all
  then show "isl (snd (getArgs inputs def toolkit amb)) \<longleftrightarrow>
      (call inputs \<noteq> [] \<and> \<not> buildx_versionSatisfies toolkit ''>=0.16.0'')
      \<or> (buildx_versionSatisfies toolkit ''>=0.10.0'' \<and> provenance inputs = []
          \<and> (\<exists>v. BUILDX_NO_DEFAULT_ATTESTATIONS amb = Some v \<and> v \<noteq> []
                   \<and> isl (parseBool amb v)))"
    unfolding failure_None_iff [of inputs toolkit amb] isl_noDefaultAttestations [of amb]
    by blast
next
  assume "call inputs \<noteq> [] \<and> \<not> buildx_versionSatisfies toolkit ''>=0.16.0''"
  then have "failure inputs toolkit amb
               = Some (Error ''Buildx >= 0.16.0 is required to use the call flag.'')"
    by (simp add: failure_def callRefused_def)
  from getArgs_failure [OF this, of def]
  show "snd (getArgs inputs def toolkit amb)
          = Inl (Error ''Buildx >= 0.16.0 is required to use the call flag.'')" .
next
  fix args
  assume c: "call inputs \<noteq> [] \<and> buildx_versionSatisfies toolkit ''>=0.16.0''"
     and a: "snd (getArgs inputs def toolkit amb) = Inr args"
  from a getArgs_Inr_iff [of inputs def toolkit amb]
  have "failure inputs toolkit amb = None" by blast
  from getArgs_tokens [OF this, of def] a
  have "args = bakeTokens inputs def toolkit amb @ getCommonArgs inputs @ targets inputs"
    by simp
  moreover from c have "callTokens inputs = [''--call'', call inputs]"
    by (simp add: callTokens_def)
  ultimately have "args = (''bake'' # sourceTokens inputs @ allowTokens toolkit inputs)
               @ [''--call'', call inputs]
               @ (flagPairs ''--file'' (files inputs) @ flagPairs ''--set'' (set_field inputs)
                  @ metadataTokens toolkit @ attestationTokens inputs def toolkit amb
                  @ getCommonArgs inputs @ targets inputs)"
    by (simp add: bakeTokens_def)
  then show "\<exists>pre post. args = pre @ [''--call'', call inputs] @ post" by blast
qed

theorem call_capability_gate_witness:
  "call (example_inputs\<lparr>call := ''check''\<rparr>) \<noteq> []
   \<and> buildx_versionSatisfies toolkit_recent ''>=0.16.0''
   \<and> snd (getArgs (example_inputs\<lparr>call := ''check''\<rparr>) False toolkit_recent ambient_public)
       = Inr ([''bake'', ''--allow'', ''fs=*''] @ [''--call'', ''check'']
              @ [''--file'', ''docker-bake.hcl'', ''--metadata-file'', ''/tmp/metadata.json'',
                 ''--load'', ''app''])
   \<and> \<not> buildx_versionSatisfies (toolkit_satisfying [''>=0.6.0'', ''>=0.10.0'']) ''>=0.16.0''
   \<and> snd (getArgs (example_inputs\<lparr>call := ''check''\<rparr>) False
            (toolkit_satisfying [''>=0.6.0'', ''>=0.10.0'']) ambient_public)
       = Inl (Error ''Buildx >= 0.16.0 is required to use the call flag.'')
   \<and> \<not> isl (snd (getArgs example_inputs False
                 (toolkit_satisfying [''>=0.6.0'', ''>=0.10.0'']) ambient_public))
   \<and> isl (snd (getArgs example_inputs False toolkit_recent
                 (ambient_with (Some ''yes'') None)))"
proof -
  have a: "snd (getArgs (example_inputs\<lparr>call := ''check''\<rparr>) False toolkit_recent ambient_public)
       = Inr ([''bake'', ''--allow'', ''fs=*''] @ [''--call'', ''check'']
              @ [''--file'', ''docker-bake.hcl'', ''--metadata-file'', ''/tmp/metadata.json'',
                 ''--load'', ''app''])"
    by (simp add: getArgs_def getBakeArgs_def getCommonArgs_def asyncForEach_def
        example_inputs_def toolkit_recent_def toolkit_satisfying_def ambient_public_def
        ambient_with_def noDefaultAttestations_def)
  from a call_capability_gate
         [of "example_inputs\<lparr>call := ''check''\<rparr>" False
             "toolkit_satisfying [''>=0.6.0'', ''>=0.10.0'']" ambient_public]
       call_capability_gate
         [of example_inputs False "toolkit_satisfying [''>=0.6.0'', ''>=0.10.0'']" ambient_public]
       call_capability_gate
         [of example_inputs False toolkit_recent "ambient_with (Some ''yes'') None"]
  show ?thesis
    by (simp add: example_inputs_def toolkit_recent_def toolkit_satisfying_def
        ambient_public_def ambient_with_def parseBool_table_def)
qed

subsection \<open>Where a token can come from\<close>

text \<open>
  The groups other than the entitlement group, and the exception if any, do not depend on
  \<open>allow\<close> or on \<open>source\<close>, and every token of a group is either the group's flag or a
  value the caller supplied.
\<close>

lemma bakeTokens_allow_update:
  "sourceTokens (inputs\<lparr>allow := xs\<rparr>) = sourceTokens inputs"
  "callTokens (inputs\<lparr>allow := xs\<rparr>) = callTokens inputs"
  "sbomTokens (inputs\<lparr>allow := xs\<rparr>) = sbomTokens inputs"
  "attestationTokens (inputs\<lparr>allow := xs\<rparr>) def toolkit amb = attestationTokens inputs def toolkit amb"
  "failure (inputs\<lparr>allow := xs\<rparr>) toolkit amb = failure inputs toolkit amb"
  by (simp_all add: sourceTokens_def callTokens_def sbomTokens_def attestationTokens_def
      provenanceTokens_def defaultProvenanceTokens_def failure_def callRefused_def)

lemma failure_source_update:
  "failure (inputs\<lparr>source := s\<rparr>) toolkit amb = failure inputs toolkit amb"
  by (simp add: failure_def callRefused_def)

lemma allowTokens_gate:
  "\<not> buildx_versionSatisfies toolkit ''>=0.17.0'' \<Longrightarrow> allowTokens toolkit inputs = []"
  "\<not> buildx_versionSatisfies toolkit ''>=0.17.0'' \<Longrightarrow> allowAfter toolkit inputs = allow inputs"
  by (simp_all add: allowTokens_def allowAfter_def)

lemma set_sourceTokens: "set (sourceTokens inputs) \<subseteq> {source inputs}"
  by (auto simp: sourceTokens_def)

lemma set_callTokens: "set (callTokens inputs) \<subseteq> {''--call'', call inputs}"
  by (auto simp: callTokens_def)

lemma set_metadataTokens:
  "set (metadataTokens toolkit) \<subseteq> {''--metadata-file'', getMetadataFilePath toolkit}"
  by (auto simp: metadataTokens_def)

lemma set_sbomTokens: "set (sbomTokens inputs) \<subseteq> {''--sbom'', sbom inputs}"
  by (auto simp: sbomTokens_def)

lemma set_provenanceTokens:
  "set (provenanceTokens inputs def toolkit amb)
     \<subseteq> {''--provenance'', provenance inputs,
        resolveProvenanceAttrs amb ''mode=min,inline-only=true'',
        resolveProvenanceAttrs amb ''mode=max''}"
  by (auto simp: provenanceTokens_def defaultProvenanceTokens_def)

lemma set_attestationTokens:
  "set (attestationTokens inputs def toolkit amb)
     \<subseteq> {''--provenance'', provenance inputs,
        resolveProvenanceAttrs amb ''mode=min,inline-only=true'',
        resolveProvenanceAttrs amb ''mode=max'', ''--sbom'', sbom inputs}"
  using set_provenanceTokens [of inputs def toolkit amb] set_sbomTokens [of inputs]
  by (auto simp: attestationTokens_def)

lemma getCommonArgs_tokens:
  "getCommonArgs inputs =
     (if no_cache inputs then [''--no-cache''] else [])
     @ (if builder inputs \<noteq> [] then [''--builder'', builder inputs] else [])
     @ (if pull inputs then [''--pull''] else [])
     @ (if load inputs then [''--load''] else [])
     @ (if push inputs then [''--push''] else [])"
  unfolding getCommonArgs_def
  apply (simp only: push_if)
  apply (simp add: Let_def)
  done

lemma set_getCommonArgs:
  "set (getCommonArgs inputs)
     \<subseteq> {''--no-cache'', ''--builder'', builder inputs, ''--pull'', ''--load'', ''--push''}"
  unfolding getCommonArgs_tokens by auto

lemma allow_from_elsewhere:
  assumes gate: "\<not> buildx_versionSatisfies toolkit ''>=0.17.0''"
      and mem: "''--allow'' \<in> set (bakeTokens inputs def toolkit amb @ getCommonArgs inputs
                                    @ targets inputs)"
  shows "''--allow'' \<in> {source inputs, call inputs, getMetadataFilePath toolkit,
                        provenance inputs,
                        resolveProvenanceAttrs amb ''mode=min,inline-only=true'',
                        resolveProvenanceAttrs amb ''mode=max'', sbom inputs, builder inputs}
                       \<union> set (files inputs) \<union> set (set_field inputs) \<union> set (targets inputs)"
proof -
  from mem allowTokens_gate(1) [OF gate, of inputs]
  consider "''--allow'' \<in> set (sourceTokens inputs)"
    | "''--allow'' \<in> set (callTokens inputs)"
    | "''--allow'' \<in> set (flagPairs ''--file'' (files inputs))"
    | "''--allow'' \<in> set (flagPairs ''--set'' (set_field inputs))"
    | "''--allow'' \<in> set (metadataTokens toolkit)"
    | "''--allow'' \<in> set (attestationTokens inputs def toolkit amb)"
    | "''--allow'' \<in> set (getCommonArgs inputs)"
    | "''--allow'' \<in> set (targets inputs)"
    by (auto simp: bakeTokens_def)
  then show ?thesis
  proof cases
    case 1 with set_sourceTokens [of inputs] show ?thesis by auto
  next
    case 2 with set_callTokens [of inputs] show ?thesis by auto
  next
    case 3 with set_flagPairs [of "''--file''" "files inputs"] show ?thesis by auto
  next
    case 4 with set_flagPairs [of "''--set''" "set_field inputs"] show ?thesis by auto
  next
    case 5 with set_metadataTokens [of toolkit] show ?thesis by auto
  next
    case 6 with set_attestationTokens [of inputs def toolkit amb] show ?thesis by auto
  next
    case 7 with set_getCommonArgs [of inputs] show ?thesis by auto
  next
    case 8 then show ?thesis by simp
  qed
qed

subsection \<open>The implicit filesystem entitlement\<close>

text \<open>
  Claim C4, as stated, fails on an \<open>allow\<close> list that already holds \<open>fs=*\<close>: line 68
  pushes without looking, so the entitlement is emitted twice.
\<close>

theorem counter_fs_twice:
  "buildx_versionSatisfies toolkit_recent ''>=0.17.0''
   \<and> buildx_versionSatisfies toolkit_recent ''>=0.18.0''
   \<and> snd (getArgs (example_inputs\<lparr>allow := [''fs=*'']\<rparr>) False toolkit_recent ambient_public)
       = Inr [''bake'', ''--allow'', ''fs=*'', ''--allow'', ''fs=*'', ''--file'', ''docker-bake.hcl'',
              ''--metadata-file'', ''/tmp/metadata.json'', ''--load'', ''app'']
   \<and> count_list (allow (fst (getArgs (example_inputs\<lparr>allow := [''fs=*'']\<rparr>) False
                                 toolkit_recent ambient_public))) ''fs=*'' = 2"
  by (simp add: getArgs_def getBakeArgs_def getCommonArgs_def asyncForEach_def
      example_inputs_def toolkit_recent_def toolkit_satisfying_def ambient_public_def
      ambient_with_def noDefaultAttestations_def)

text \<open>
  Claim C4, amended. When the orchestrator satisfies \<open>>=0.17.0\<close> and \<open>>=0.18.0\<close> and the
  synthesis succeeds, the list that the loop of lines 70 to 72 walks is the caller's
  \<open>allow\<close> list with \<open>fs=*\<close> appended; the output carries one \<open>--allow\<close> pair for each
  of its entries, in order, right after \<open>bake\<close> and the source; so \<open>fs=*\<close> is emitted
  once more than the caller listed it, and exactly once when the caller did not list it.
\<close>

theorem allow_fs_entitlement:
  assumes "buildx_versionSatisfies toolkit ''>=0.17.0''"
      and "buildx_versionSatisfies toolkit ''>=0.18.0''"
      and "snd (getArgs inputs def toolkit amb) = Inr args"
  shows "allow (fst (getArgs inputs def toolkit amb)) = allow inputs @ [''fs=*'']
       \<and> args = ''bake'' # sourceTokens inputs
                @ flagPairs ''--allow'' (allow (fst (getArgs inputs def toolkit amb)))
                @ callTokens inputs @ flagPairs ''--file'' (files inputs)
                @ flagPairs ''--set'' (set_field inputs) @ metadataTokens toolkit
                @ attestationTokens inputs def toolkit amb
                @ getCommonArgs inputs @ targets inputs
       \<and> count_list (allow (fst (getArgs inputs def toolkit amb))) ''fs=*''
           = count_list (allow inputs) ''fs=*'' + 1
       \<and> (''fs=*'' \<notin> set (allow inputs) \<longrightarrow>
            count_list (allow (fst (getArgs inputs def toolkit amb))) ''fs=*'' = 1)"
proof -
  from assms(1,2) have after: "allowAfter toolkit inputs = allow inputs @ [''fs=*'']"
    by (simp add: allowAfter_def)
  with getArgs_inputs [of inputs def toolkit amb]
  have a: "allow (fst (getArgs inputs def toolkit amb)) = allow inputs @ [''fs=*'']"
    by simp
  from assms(3) getArgs_Inr_iff [of inputs def toolkit amb]
  have "failure inputs toolkit amb = None" by blast
  from getArgs_tokens [OF this, of def] assms(3)
  have "args = bakeTokens inputs def toolkit amb @ getCommonArgs inputs @ targets inputs"
    by simp
  with assms(1) after a
  have b: "args = ''bake'' # sourceTokens inputs
                @ flagPairs ''--allow'' (allow (fst (getArgs inputs def toolkit amb)))
                @ callTokens inputs @ flagPairs ''--file'' (files inputs)
                @ flagPairs ''--set'' (set_field inputs) @ metadataTokens toolkit
                @ attestationTokens inputs def toolkit amb
                @ getCommonArgs inputs @ targets inputs"
    by (simp add: bakeTokens_def allowTokens_def)
  from a have c: "count_list (allow (fst (getArgs inputs def toolkit amb))) ''fs=*''
           = count_list (allow inputs) ''fs=*'' + 1"
    by simp
  from a b c show ?thesis
    by (simp add: count_list_0_iff)
qed

theorem allow_fs_entitlement_witness:
  "buildx_versionSatisfies toolkit_recent ''>=0.17.0''
   \<and> buildx_versionSatisfies toolkit_recent ''>=0.18.0''
   \<and> snd (getArgs (example_inputs\<lparr>allow := [''network.host'']\<rparr>) False toolkit_recent
            ambient_public)
       = Inr [''bake'', ''--allow'', ''network.host'', ''--allow'', ''fs=*'', ''--file'',
              ''docker-bake.hcl'', ''--metadata-file'', ''/tmp/metadata.json'', ''--load'', ''app'']
   \<and> ''fs=*'' \<notin> set (allow (example_inputs\<lparr>allow := [''network.host'']\<rparr>))
   \<and> allow (fst (getArgs (example_inputs\<lparr>allow := [''network.host'']\<rparr>) False toolkit_recent
                   ambient_public)) = [''network.host'', ''fs=*'']
   \<and> count_list (allow (fst (getArgs (example_inputs\<lparr>allow := [''network.host'']\<rparr>) False
                                 toolkit_recent ambient_public))) ''fs=*'' = 1"
proof -
  have v: "buildx_versionSatisfies toolkit_recent ''>=0.17.0''"
          "buildx_versionSatisfies toolkit_recent ''>=0.18.0''"
    by (simp_all add: toolkit_recent_def toolkit_satisfying_def)
  have r: "snd (getArgs (example_inputs\<lparr>allow := [''network.host'']\<rparr>) False toolkit_recent
            ambient_public)
       = Inr [''bake'', ''--allow'', ''network.host'', ''--allow'', ''fs=*'', ''--file'',
              ''docker-bake.hcl'', ''--metadata-file'', ''/tmp/metadata.json'', ''--load'', ''app'']"
    by (simp add: getArgs_def getBakeArgs_def getCommonArgs_def asyncForEach_def
      example_inputs_def toolkit_recent_def toolkit_satisfying_def ambient_public_def
      ambient_with_def noDefaultAttestations_def)
  from allow_fs_entitlement [OF v r] v r show ?thesis
    by (simp add: example_inputs_def)
qed

subsection \<open>The entitlement gate\<close>

text \<open>
  Claim C5, as stated, fails when another input is itself spelled \<open>--allow\<close>: the targets
  are appended verbatim, so the token is in the output although the orchestrator does not
  satisfy \<open>>=0.17.0\<close>.
\<close>

theorem counter_allow_token_from_targets:
  "allow (example_inputs\<lparr>allow := [''network.host''], targets := [''--allow'']\<rparr>) \<noteq> []
   \<and> \<not> buildx_versionSatisfies (toolkit_satisfying [''>=0.6.0'', ''>=0.10.0'', ''>=0.16.0''])
          ''>=0.17.0''
   \<and> snd (getArgs (example_inputs\<lparr>allow := [''network.host''], targets := [''--allow'']\<rparr>) False
            (toolkit_satisfying [''>=0.6.0'', ''>=0.10.0'', ''>=0.16.0'']) ambient_public)
       = Inr [''bake'', ''--file'', ''docker-bake.hcl'', ''--metadata-file'',
              ''/tmp/metadata.json'', ''--load'', ''--allow'']"
  by (simp add: getArgs_def getBakeArgs_def getCommonArgs_def asyncForEach_def
      example_inputs_def toolkit_satisfying_def ambient_public_def
      ambient_with_def noDefaultAttestations_def)

text \<open>
  Claim C5, amended. When the orchestrator does not satisfy \<open>>=0.17.0\<close>, \<open>getArgs\<close> does
  not mutate the record, and its result is the one it gives for the same record with an empty
  \<open>allow\<close> list: no token comes from \<open>allow\<close>. A token \<open>--allow\<close> is in the output only
  if the source, the call value, the metadata path, a provenance or sbom value, the builder
  name, or an entry of \<open>files\<close>, \<open>set\<close> or \<open>targets\<close> is spelled so.
\<close>

theorem allow_gate:
  assumes "\<not> buildx_versionSatisfies toolkit ''>=0.17.0''"
  shows "fst (getArgs inputs def toolkit amb) = inputs
       \<and> snd (getArgs inputs def toolkit amb)
           = snd (getArgs (inputs\<lparr>allow := []\<rparr>) def toolkit amb)
       \<and> (\<forall>args. snd (getArgs inputs def toolkit amb) = Inr args \<and> ''--allow'' \<in> set args \<longrightarrow>
             ''--allow'' \<in> {source inputs, call inputs, getMetadataFilePath toolkit,
                             provenance inputs,
                             resolveProvenanceAttrs amb ''mode=min,inline-only=true'',
                             resolveProvenanceAttrs amb ''mode=max'', sbom inputs,
                             builder inputs}
                            \<union> set (files inputs) \<union> set (set_field inputs)
                            \<union> set (targets inputs))"
proof (intro conjI allI impI)
  from getArgs_inputs [of inputs def toolkit amb] allowTokens_gate(2) [OF assms, of inputs]
  show "fst (getArgs inputs def toolkit amb) = inputs" by simp
next
  from getArgs_result [of inputs def toolkit amb]
    getArgs_result [of "inputs\<lparr>allow := []\<rparr>" def toolkit amb]
    allowTokens_gate(1) [OF assms, of inputs]
    allowTokens_gate(1) [OF assms, of "inputs\<lparr>allow := []\<rparr>"]
  show "snd (getArgs inputs def toolkit amb)
           = snd (getArgs (inputs\<lparr>allow := []\<rparr>) def toolkit amb)"
    by (cases "failure inputs toolkit amb")
       (simp_all add: bakeTokens_def bakeTokens_allow_update getCommonArgs_allow)
next
  fix args
  assume a: "snd (getArgs inputs def toolkit amb) = Inr args \<and> ''--allow'' \<in> set args"
  with getArgs_Inr_iff [of inputs def toolkit amb]
  have "failure inputs toolkit amb = None" by blast
  from getArgs_tokens [OF this, of def] a
  have "''--allow'' \<in> set (bakeTokens inputs def toolkit amb @ getCommonArgs inputs
                                    @ targets inputs)"
    by simp
  from allow_from_elsewhere [OF assms this]
  show "''--allow'' \<in> {source inputs, call inputs, getMetadataFilePath toolkit,
                             provenance inputs,
                             resolveProvenanceAttrs amb ''mode=min,inline-only=true'',
                             resolveProvenanceAttrs amb ''mode=max'', sbom inputs,
                             builder inputs}
                            \<union> set (files inputs) \<union> set (set_field inputs)
                            \<union> set (targets inputs)" .
qed

theorem allow_gate_witness:
  "\<not> buildx_versionSatisfies (toolkit_satisfying [''>=0.6.0'', ''>=0.10.0'', ''>=0.16.0''])
        ''>=0.17.0''
   \<and> getArgs (example_inputs\<lparr>allow := [''network.host'']\<rparr>) False
        (toolkit_satisfying [''>=0.6.0'', ''>=0.10.0'', ''>=0.16.0'']) ambient_public
       = (example_inputs\<lparr>allow := [''network.host'']\<rparr>,
          Inr [''bake'', ''--file'', ''docker-bake.hcl'', ''--metadata-file'',
               ''/tmp/metadata.json'', ''--load'', ''app''])
   \<and> snd (getArgs (example_inputs\<lparr>allow := []\<rparr>) False
        (toolkit_satisfying [''>=0.6.0'', ''>=0.10.0'', ''>=0.16.0'']) ambient_public)
       = Inr [''bake'', ''--file'', ''docker-bake.hcl'', ''--metadata-file'',
               ''/tmp/metadata.json'', ''--load'', ''app'']"
proof -
  have g: "\<not> buildx_versionSatisfies
               (toolkit_satisfying [''>=0.6.0'', ''>=0.10.0'', ''>=0.16.0'']) ''>=0.17.0''"
    by (simp add: toolkit_satisfying_def)
  have r: "snd (getArgs (example_inputs\<lparr>allow := []\<rparr>) False
        (toolkit_satisfying [''>=0.6.0'', ''>=0.10.0'', ''>=0.16.0'']) ambient_public)
       = Inr [''bake'', ''--file'', ''docker-bake.hcl'', ''--metadata-file'',
               ''/tmp/metadata.json'', ''--load'', ''app'']"
    by (simp add: getArgs_def getBakeArgs_def getCommonArgs_def asyncForEach_def
      example_inputs_def toolkit_satisfying_def ambient_public_def
      ambient_with_def noDefaultAttestations_def)
  from allow_gate [OF g, of "example_inputs\<lparr>allow := [''network.host'']\<rparr>" False ambient_public]
    g r
  show ?thesis
    by (simp add: prod_eq_iff)
qed

subsection \<open>Default provenance\<close>

text \<open>
  Claim C6, as stated for every record with an empty \<open>provenance\<close>, fails on a record
  whose \<open>call\<close> value the orchestrator refuses: with an orchestrator that satisfies
  \<open>>=0.10.0\<close> but not \<open>>=0.16.0\<close>, no opt-out, a backend that satisfies \<open>>=0.11.0\<close>
  and no docker exporter, line 76 throws before the attestation block is reached, and no
  token is emitted at all. Nothing is emitted either when the environment variable is a
  string that \<^verbatim>\<open>Util.parseBool\<close> rejects: the condition of line 92 throws.
\<close>

theorem counter_no_provenance_when_call_refused:
  "provenance (example_inputs\<lparr>load := False, call := ''check''\<rparr>) = []
   \<and> buildx_versionSatisfies (toolkit_satisfying [''>=0.6.0'', ''>=0.10.0'']) ''>=0.10.0''
   \<and> noDefaultAttestations ambient_public = Inr False
   \<and> buildkit_versionSatisfies (toolkit_satisfying [''>=0.6.0'', ''>=0.10.0''])
         (builder (example_inputs\<lparr>load := False, call := ''check''\<rparr>)) ''>=0.11.0''
   \<and> \<not> hasDockerExporter ambient_public False
           (load (example_inputs\<lparr>load := False, call := ''check''\<rparr>))
   \<and> snd (getArgs (example_inputs\<lparr>load := False, call := ''check''\<rparr>) False
            (toolkit_satisfying [''>=0.6.0'', ''>=0.10.0'']) ambient_public)
       = Inl (Error ''Buildx >= 0.16.0 is required to use the call flag.'')"
  by (simp add: getArgs_def getBakeArgs_def asyncForEach_def example_inputs_def
      toolkit_satisfying_def ambient_public_def ambient_with_def noDefaultAttestations_def)

text \<open>
  Claim C6, amended. Let \<open>provenance\<close> be empty and the orchestrator satisfy \<open>>=0.10.0\<close>,
  and let the synthesis not throw: \<open>call\<close> is empty or the orchestrator satisfies
  \<open>>=0.16.0\<close>, and \<open>noDefaultAttestations\<close> returns a boolean \<open>optOut\<close> (the variable
  is unset, empty, or a spelling that \<^verbatim>\<open>Util.parseBool\<close> accepts). Then \<open>getArgs\<close> returns
  a list that, between the metadata tokens and the sbom tokens, has the pair
  \<open>--provenance v\<close> exactly when \<open>optOut\<close> is false, the backend of the chosen builder
  satisfies \<open>>=0.11.0\<close> and \<open>hasDockerExporter\<close> is false for the definition and the load
  request; otherwise it has nothing there. The value \<open>v\<close> is what
  \<open>resolveProvenanceAttrs\<close> makes of \<open>mode=min,inline-only=true\<close> when the payload has a
  repository whose \<open>private\<close> member is true, and of \<open>mode=max\<close> when the member is false
  or absent or there is no repository. \<open>optOut\<close> is true exactly when the variable is set,
  non-empty and parsed as true, and then there is no default pair, whatever the repository.
\<close>

theorem default_provenance:
  assumes "provenance inputs = []"
      and "buildx_versionSatisfies toolkit ''>=0.10.0''"
      and "\<not> (call inputs \<noteq> [] \<and> \<not> buildx_versionSatisfies toolkit ''>=0.16.0'')"
      and "noDefaultAttestations amb = Inr optOut"
  shows "snd (getArgs inputs def toolkit amb)
           = Inr ((''bake'' # sourceTokens inputs @ allowTokens toolkit inputs
                   @ callTokens inputs @ flagPairs ''--file'' (files inputs)
                   @ flagPairs ''--set'' (set_field inputs) @ metadataTokens toolkit)
                  @ (if \<not> optOut
                        \<and> buildkit_versionSatisfies toolkit (builder inputs) ''>=0.11.0''
                        \<and> \<not> hasDockerExporter amb def (load inputs)
                     then [''--provenance'',
                           resolveProvenanceAttrs amb
                             (if repository_private amb then ''mode=min,inline-only=true''
                              else ''mode=max'')]
                     else [])
                  @ (sbomTokens inputs @ getCommonArgs inputs @ targets inputs))
       \<and> (repository_private amb \<longleftrightarrow>
            (\<exists>r. payload_repository amb = Some r \<and> is_private r = Some True))
       \<and> (optOut \<longleftrightarrow>
            (\<exists>v. BUILDX_NO_DEFAULT_ATTESTATIONS amb = Some v \<and> v \<noteq> []
                 \<and> parseBool amb v = Inr True))
       \<and> (optOut \<longrightarrow>
            snd (getArgs inputs def toolkit amb)
              = Inr ((''bake'' # sourceTokens inputs @ allowTokens toolkit inputs
                      @ callTokens inputs @ flagPairs ''--file'' (files inputs)
                      @ flagPairs ''--set'' (set_field inputs) @ metadataTokens toolkit)
                     @ (sbomTokens inputs @ getCommonArgs inputs @ targets inputs)))"
proof -
  from assms(3,4) have "failure inputs toolkit amb = None"
    by (simp add: failure_def callRefused_def)
  from getArgs_tokens [OF this, of def] assms(1,2,4)
  have a: "snd (getArgs inputs def toolkit amb)
           = Inr ((''bake'' # sourceTokens inputs @ allowTokens toolkit inputs
                   @ callTokens inputs @ flagPairs ''--file'' (files inputs)
                   @ flagPairs ''--set'' (set_field inputs) @ metadataTokens toolkit)
                  @ (if \<not> optOut
                        \<and> buildkit_versionSatisfies toolkit (builder inputs) ''>=0.11.0''
                        \<and> \<not> hasDockerExporter amb def (load inputs)
                     then [''--provenance'',
                           resolveProvenanceAttrs amb
                             (if repository_private amb then ''mode=min,inline-only=true''
                              else ''mode=max'')]
                     else [])
                  @ (sbomTokens inputs @ getCommonArgs inputs @ targets inputs))"
    by (simp add: bakeTokens_def attestationTokens_def provenanceTokens_def
        defaultProvenanceTokens_def)
  have p: "repository_private amb \<longleftrightarrow>
            (\<exists>r. payload_repository amb = Some r \<and> is_private r = Some True)"
    by (auto simp: repository_private_def split: option.splits)
  from assms(4) have n: "optOut \<longleftrightarrow>
            (\<exists>v. BUILDX_NO_DEFAULT_ATTESTATIONS amb = Some v \<and> v \<noteq> []
                 \<and> parseBool amb v = Inr True)"
    by (auto simp: noDefaultAttestations_def split: option.splits if_splits)
  from a p n show ?thesis by simp
qed

theorem default_provenance_witness:
  "provenance (example_inputs\<lparr>load := False, push := True\<rparr>) = []
   \<and> buildx_versionSatisfies toolkit_recent ''>=0.10.0''
   \<and> call (example_inputs\<lparr>load := False, push := True\<rparr>) = []
   \<and> noDefaultAttestations (ambient_with None (Some \<lparr>is_private = Some True\<rparr>)) = Inr False
   \<and> snd (getArgs (example_inputs\<lparr>load := False, push := True\<rparr>) False toolkit_recent
            (ambient_with None (Some \<lparr>is_private = Some True\<rparr>)))
       = Inr [''bake'', ''--allow'', ''fs=*'', ''--file'', ''docker-bake.hcl'',
              ''--metadata-file'', ''/tmp/metadata.json'',
              ''--provenance'', ''mode=min,inline-only=true,builder-id=run'', ''--push'', ''app'']
   \<and> noDefaultAttestations (ambient_with (Some ''0'') None) = Inr False
   \<and> snd (getArgs (example_inputs\<lparr>load := False, push := True\<rparr>) False toolkit_recent
            (ambient_with (Some ''0'') None))
       = Inr [''bake'', ''--allow'', ''fs=*'', ''--file'', ''docker-bake.hcl'',
              ''--metadata-file'', ''/tmp/metadata.json'',
              ''--provenance'', ''mode=max,builder-id=run'', ''--push'', ''app'']
   \<and> noDefaultAttestations (ambient_with (Some ''true'') (Some \<lparr>is_private = Some True\<rparr>))
       = Inr True
   \<and> snd (getArgs (example_inputs\<lparr>load := False, push := True\<rparr>) False toolkit_recent
            (ambient_with (Some ''true'') (Some \<lparr>is_private = Some True\<rparr>)))
       = Inr [''bake'', ''--allow'', ''fs=*'', ''--file'', ''docker-bake.hcl'',
              ''--metadata-file'', ''/tmp/metadata.json'', ''--push'', ''app'']"
proof -
  let ?i = "example_inputs\<lparr>load := False, push := True\<rparr>"
  have h: "provenance ?i = []" "buildx_versionSatisfies toolkit_recent ''>=0.10.0''"
    "\<not> (call ?i \<noteq> [] \<and> \<not> buildx_versionSatisfies toolkit_recent ''>=0.16.0'')"
    by (simp_all add: example_inputs_def toolkit_recent_def toolkit_satisfying_def)
  have n1: "noDefaultAttestations (ambient_with None (Some \<lparr>is_private = Some True\<rparr>))
              = Inr False"
    and n2: "noDefaultAttestations (ambient_with (Some ''0'') None) = Inr False"
    and n3: "noDefaultAttestations
               (ambient_with (Some ''true'') (Some \<lparr>is_private = Some True\<rparr>)) = Inr True"
    by (simp_all add: noDefaultAttestations_def ambient_with_def parseBool_table_def)
  note t1 = default_provenance [OF h n1, of False]
  note t2 = default_provenance [OF h n2, of False]
  note t3 = default_provenance [OF h n3, of False]
  have e1: "snd (getArgs ?i False toolkit_recent
            (ambient_with None (Some \<lparr>is_private = Some True\<rparr>)))
       = Inr [''bake'', ''--allow'', ''fs=*'', ''--file'', ''docker-bake.hcl'',
              ''--metadata-file'', ''/tmp/metadata.json'',
              ''--provenance'', ''mode=min,inline-only=true,builder-id=run'', ''--push'', ''app'']"
    using t1
    by (simp add: sourceTokens_def allowTokens_def allowAfter_def callTokens_def
        metadataTokens_def sbomTokens_def flagPairs_simps getCommonArgs_def
        repository_private_def example_inputs_def toolkit_recent_def toolkit_satisfying_def
        ambient_with_def)
  have e2: "snd (getArgs ?i False toolkit_recent (ambient_with (Some ''0'') None))
       = Inr [''bake'', ''--allow'', ''fs=*'', ''--file'', ''docker-bake.hcl'',
              ''--metadata-file'', ''/tmp/metadata.json'',
              ''--provenance'', ''mode=max,builder-id=run'', ''--push'', ''app'']"
    using t2
    by (simp add: sourceTokens_def allowTokens_def allowAfter_def callTokens_def
        metadataTokens_def sbomTokens_def flagPairs_simps getCommonArgs_def
        repository_private_def example_inputs_def toolkit_recent_def toolkit_satisfying_def
        ambient_with_def)
  have e3: "snd (getArgs ?i False toolkit_recent
            (ambient_with (Some ''true'') (Some \<lparr>is_private = Some True\<rparr>)))
       = Inr [''bake'', ''--allow'', ''fs=*'', ''--file'', ''docker-bake.hcl'',
              ''--metadata-file'', ''/tmp/metadata.json'', ''--push'', ''app'']"
    using t3
    by (simp add: sourceTokens_def allowTokens_def allowAfter_def callTokens_def
        metadataTokens_def sbomTokens_def flagPairs_simps getCommonArgs_def
        repository_private_def example_inputs_def toolkit_recent_def toolkit_satisfying_def
        ambient_with_def)
  from h n1 n2 n3 e1 e2 e3 show ?thesis
    by (simp add: example_inputs_def)
qed

subsection \<open>Source resolution\<close>

text \<open>
  Claim C7. When the renderer returns \<open>s\<close>, the resolved value is \<open>s\<close>, or the git
  context when \<open>s\<close> is empty, and \<open>getSourceInput\<close> returns the empty string when the
  resolved value is \<open>.\<close> and the resolved value otherwise. On a record with an empty
  source, a successful \<open>getArgs\<close> returns \<open>bake\<close> followed directly by the tokens that,
  for a non-empty source, come after the source token; and whether \<open>getArgs\<close> fails does
  not depend on the source.
\<close>

theorem source_resolution:
  "(handlebars_compile env (getInput env name) (gitContext env) = Inr s \<longrightarrow>
      getSourceInput env name
        = Inr (let resolved = (if s = [] then gitContext env else s)
               in if resolved = ''.'' then [] else resolved))
   \<and> (snd (getArgs (inputs\<lparr>source := []\<rparr>) def toolkit amb) = Inr args \<longrightarrow>
        (\<exists>rest. args = ''bake'' # rest
           \<and> (\<forall>s. s \<noteq> [] \<longrightarrow>
                 snd (getArgs (inputs\<lparr>source := s\<rparr>) def toolkit amb)
                   = Inr (''bake'' # s # rest))))
   \<and> (snd (getArgs (inputs\<lparr>source := []\<rparr>) def toolkit amb) = Inl e \<longrightarrow>
        (\<forall>s. snd (getArgs (inputs\<lparr>source := s\<rparr>) def toolkit amb) = Inl e))"
proof (intro conjI impI allI)
  assume "handlebars_compile env (getInput env name) (gitContext env) = Inr s"
  then show "getSourceInput env name
        = Inr (let resolved = (if s = [] then gitContext env else s)
               in if resolved = ''.'' then [] else resolved)"
    by (simp add: getSourceInput_def Let_def)
next
  assume a: "snd (getArgs (inputs\<lparr>source := []\<rparr>) def toolkit amb) = Inr args"
  let ?rest = "\<lambda>i. allowTokens toolkit i @ callTokens i
                 @ flagPairs ''--file'' (files i) @ flagPairs ''--set'' (set_field i)
                 @ metadataTokens toolkit @ attestationTokens i def toolkit amb
                 @ getCommonArgs i @ targets i"
  have same: "?rest (inputs\<lparr>source := s\<rparr>) = ?rest (inputs\<lparr>source := []\<rparr>)" for s
    by (simp add: allowTokens_def allowAfter_def callTokens_def attestationTokens_def
        provenanceTokens_def defaultProvenanceTokens_def sbomTokens_def getCommonArgs_def)
  from a getArgs_Inr_iff [of "inputs\<lparr>source := []\<rparr>" def toolkit amb]
  have nr: "failure (inputs\<lparr>source := []\<rparr>) toolkit amb = None" by blast
  then have nr': "failure (inputs\<lparr>source := s\<rparr>) toolkit amb = None" for s
    by (simp add: failure_source_update)
  from getArgs_tokens [OF nr, of def] a
  have args: "args = ''bake'' # ?rest (inputs\<lparr>source := []\<rparr>)"
    by (simp add: bakeTokens_def sourceTokens_def)
  have "snd (getArgs (inputs\<lparr>source := s\<rparr>) def toolkit amb)
          = Inr (''bake'' # s # ?rest (inputs\<lparr>source := []\<rparr>))" if "s \<noteq> []" for s
  proof -
    from getArgs_tokens [OF nr', of s def] that
    have "snd (getArgs (inputs\<lparr>source := s\<rparr>) def toolkit amb)
          = Inr (''bake'' # s # ?rest (inputs\<lparr>source := s\<rparr>))"
      by (simp add: bakeTokens_def sourceTokens_def)
    with same [of s] show ?thesis by simp
  qed
  with args show "\<exists>rest. args = ''bake'' # rest
           \<and> (\<forall>s. s \<noteq> [] \<longrightarrow>
                 snd (getArgs (inputs\<lparr>source := s\<rparr>) def toolkit amb)
                   = Inr (''bake'' # s # rest))"
    by blast
next
  fix s
  assume a: "snd (getArgs (inputs\<lparr>source := []\<rparr>) def toolkit amb) = Inl e"
  have same: "failure (inputs\<lparr>source := s\<rparr>) toolkit amb
                = failure (inputs\<lparr>source := []\<rparr>) toolkit amb"
    by (simp add: failure_source_update)
  from a getArgs_result [of "inputs\<lparr>source := []\<rparr>" def toolkit amb]
  have "failure (inputs\<lparr>source := []\<rparr>) toolkit amb = Some e"
    by (cases "failure (inputs\<lparr>source := []\<rparr>) toolkit amb") simp_all
  with same have "failure (inputs\<lparr>source := s\<rparr>) toolkit amb = Some e" by simp
  from getArgs_failure [OF this, of def]
  show "snd (getArgs (inputs\<lparr>source := s\<rparr>) def toolkit amb) = Inl e" .
qed

theorem source_resolution_witness:
  "handlebars_compile (source_env ''.'' ''https://github.com/o/r.git#main'')
       (getInput (source_env ''.'' ''https://github.com/o/r.git#main'') ''source'')
       (gitContext (source_env ''.'' ''https://github.com/o/r.git#main'')) = Inr ''.''
   \<and> getSourceInput (source_env ''.'' ''https://github.com/o/r.git#main'') ''source'' = Inr []
   \<and> getSourceInput (source_env [] ''https://github.com/o/r.git#main'') ''source''
       = Inr ''https://github.com/o/r.git#main''
   \<and> getSourceInput (source_env [] ''.'') ''source'' = Inr []
   \<and> snd (getArgs (example_inputs\<lparr>source := []\<rparr>) False toolkit_recent ambient_public)
       = Inr (''bake'' # [''--allow'', ''fs=*'', ''--file'', ''docker-bake.hcl'',
                          ''--metadata-file'', ''/tmp/metadata.json'', ''--load'', ''app''])
   \<and> snd (getArgs (example_inputs\<lparr>source := ''ctx''\<rparr>) False toolkit_recent ambient_public)
       = Inr (''bake'' # ''ctx'' # [''--allow'', ''fs=*'', ''--file'', ''docker-bake.hcl'',
                          ''--metadata-file'', ''/tmp/metadata.json'', ''--load'', ''app''])"
proof -
  have c1: "handlebars_compile (source_env ''.'' ''https://github.com/o/r.git#main'')
       (getInput (source_env ''.'' ''https://github.com/o/r.git#main'') ''source'')
       (gitContext (source_env ''.'' ''https://github.com/o/r.git#main'')) = Inr ''.''"
    by (simp add: source_env_def)
  have c2: "handlebars_compile (source_env [] ''https://github.com/o/r.git#main'')
       (getInput (source_env [] ''https://github.com/o/r.git#main'') ''source'')
       (gitContext (source_env [] ''https://github.com/o/r.git#main'')) = Inr []"
    by (simp add: source_env_def)
  have c3: "handlebars_compile (source_env [] ''.'')
       (getInput (source_env [] ''.'') ''source'') (gitContext (source_env [] ''.'')) = Inr []"
    by (simp add: source_env_def)
  have g: "gitContext (source_env [] ''https://github.com/o/r.git#main'')
             = ''https://github.com/o/r.git#main''"
          "gitContext (source_env [] ''.'') = ''.''"
    by (simp_all add: source_env_def)
  have a: "snd (getArgs (example_inputs\<lparr>source := []\<rparr>) False toolkit_recent ambient_public)
       = Inr (''bake'' # [''--allow'', ''fs=*'', ''--file'', ''docker-bake.hcl'',
                          ''--metadata-file'', ''/tmp/metadata.json'', ''--load'', ''app''])"
    by (simp add: getArgs_def getBakeArgs_def getCommonArgs_def asyncForEach_def
      example_inputs_def toolkit_recent_def toolkit_satisfying_def ambient_public_def
      ambient_with_def noDefaultAttestations_def)
  note r1 = source_resolution [of "source_env ''.'' ''https://github.com/o/r.git#main''"
      "''source''" "''.''" example_inputs False toolkit_recent ambient_public
      "''bake'' # [''--allow'', ''fs=*'', ''--file'', ''docker-bake.hcl'',
                          ''--metadata-file'', ''/tmp/metadata.json'', ''--load'', ''app'']"
      "Error []"]
  note r2 = source_resolution [of "source_env [] ''https://github.com/o/r.git#main''"
      "''source''" "[]" example_inputs False toolkit_recent ambient_public
      "''bake'' # [''--allow'', ''fs=*'', ''--file'', ''docker-bake.hcl'',
                          ''--metadata-file'', ''/tmp/metadata.json'', ''--load'', ''app'']"
      "Error []"]
  note r3 = source_resolution [of "source_env [] ''.''"
      "''source''" "[]" example_inputs False toolkit_recent ambient_public
      "''bake'' # [''--allow'', ''fs=*'', ''--file'', ''docker-bake.hcl'',
                          ''--metadata-file'', ''/tmp/metadata.json'', ''--load'', ''app'']"
      "Error []"]
  from r1 c1 have s1: "getSourceInput (source_env ''.'' ''https://github.com/o/r.git#main'')
      ''source'' = Inr []"
    by simp
  from r2 c2 g have s2: "getSourceInput (source_env [] ''https://github.com/o/r.git#main'')
      ''source'' = Inr ''https://github.com/o/r.git#main''"
    by simp
  from r3 c3 g have s3: "getSourceInput (source_env [] ''.'') ''source'' = Inr []"
    by simp
  from r1 a have "snd (getArgs (example_inputs\<lparr>source := ''ctx''\<rparr>) False toolkit_recent
       ambient_public)
       = Inr (''bake'' # ''ctx'' # [''--allow'', ''fs=*'', ''--file'', ''docker-bake.hcl'',
                          ''--metadata-file'', ''/tmp/metadata.json'', ''--load'', ''app''])"
    by simp
  with c1 s1 s2 s3 a show ?thesis by simp
qed

text \<open>
  Claim C8, as stated, fails: lines 133 to 135 call the renderer outside any handler, so a
  template that the renderer rejects makes \<open>getSourceInput\<close> throw; it does not return the
  git context.
\<close>

theorem counter_renderer_error_thrown:
  "handlebars_compile (source_env ''{{'' ''https://github.com/o/r.git#main'')
       (getInput (source_env ''{{'' ''https://github.com/o/r.git#main'') ''source'')
       (gitContext (source_env ''{{'' ''https://github.com/o/r.git#main''))
     = Inl (Error ''Parse error'')
   \<and> getSourceInput (source_env ''{{'' ''https://github.com/o/r.git#main'') ''source''
     = Inl (Error ''Parse error'')
   \<and> getSourceInput (source_env ''{{'' ''https://github.com/o/r.git#main'') ''source''
     \<noteq> Inr (gitContext (source_env ''{{'' ''https://github.com/o/r.git#main''))"
  by (simp add: getSourceInput_def source_env_def)

text \<open>
  Claim C8, amended. When the renderer fails on the raw source input, \<open>getSourceInput\<close> fails
  with the same error: the failure reaches the caller and no fallback is taken.
\<close>

theorem template_failure_propagates:
  assumes "handlebars_compile env (getInput env name) (gitContext env) = Inl e"
  shows "getSourceInput env name = Inl e"
  using assms by (simp add: getSourceInput_def)

theorem template_failure_propagates_witness:
  "handlebars_compile (source_env ''{{#if}}'' ''.'')
       (getInput (source_env ''{{#if}}'' ''.'') ''source'')
       (gitContext (source_env ''{{#if}}'' ''.''))
     = Inl (Error ''Parse error'')
   \<and> getSourceInput (source_env ''{{#if}}'' ''.'') ''source'' = Inl (Error ''Parse error'')"
proof -
  have h: "handlebars_compile (source_env ''{{#if}}'' ''.'')
       (getInput (source_env ''{{#if}}'' ''.'') ''source'')
       (gitContext (source_env ''{{#if}}'' ''.''))
     = Inl (Error ''Parse error'')"
    by (simp add: source_env_def)
  from template_failure_propagates [OF h] h show ?thesis by simp
qed

subsection \<open>The record after the call\<close>

text \<open>
  Claim C9. When the orchestrator satisfies \<open>>=0.17.0\<close> and \<open>>=0.18.0\<close> and \<open>getArgs\<close>
  returns a list, it leaves \<open>fs=*\<close> appended to \<open>allow\<close>, and a second call on the record
  it left returns too and appends it again: the second token list has the pair
  \<open>--allow fs=*\<close> twice where the first has it once, and differs from the first. The
  example record is such a record.
\<close>

theorem getArgs_not_idempotent:
  assumes "buildx_versionSatisfies toolkit ''>=0.17.0''"
      and "buildx_versionSatisfies toolkit ''>=0.18.0''"
      and "snd (getArgs inputs def toolkit amb) = Inr args1"
  shows "\<exists>inputs1 inputs2 args2 pre post.
           getArgs inputs def toolkit amb = (inputs1, Inr args1)
         \<and> getArgs inputs1 def toolkit amb = (inputs2, Inr args2)
         \<and> allow inputs1 = allow inputs @ [''fs=*'']
         \<and> allow inputs2 = allow inputs @ [''fs=*'', ''fs=*'']
         \<and> args1 = pre @ [''--allow'', ''fs=*''] @ post
         \<and> args2 = pre @ [''--allow'', ''fs=*'', ''--allow'', ''fs=*''] @ post
         \<and> args2 \<noteq> args1"
proof -
  let ?i1 = "inputs\<lparr>allow := allow inputs @ [''fs=*'']\<rparr>"
  let ?i2 = "inputs\<lparr>allow := allow inputs @ [''fs=*'', ''fs=*'']\<rparr>"
  let ?pre = "''bake'' # sourceTokens inputs @ flagPairs ''--allow'' (allow inputs)"
  let ?post = "callTokens inputs @ flagPairs ''--file'' (files inputs)
                 @ flagPairs ''--set'' (set_field inputs) @ metadataTokens toolkit
                 @ attestationTokens inputs def toolkit amb
                 @ getCommonArgs inputs @ targets inputs"
  from assms(3) getArgs_Inr_iff [of inputs def toolkit amb]
  have nr: "failure inputs toolkit amb = None" by blast
  then have nr1: "failure ?i1 toolkit amb = None"
    by (simp add: bakeTokens_allow_update)
  from assms(1,2) have a0: "allowAfter toolkit inputs = allow inputs @ [''fs=*'']"
    and a1: "allowAfter toolkit ?i1 = allow inputs @ [''fs=*'', ''fs=*'']"
    by (simp_all add: allowAfter_def)
  from getArgs_inputs [of inputs def toolkit amb] a0
  have f1: "fst (getArgs inputs def toolkit amb) = ?i1" by simp
  from getArgs_inputs [of ?i1 def toolkit amb] a1
  have f2: "fst (getArgs ?i1 def toolkit amb) = ?i2" by simp
  from getArgs_tokens [OF nr, of def] assms(1) a0
  have s1: "snd (getArgs inputs def toolkit amb)
              = Inr (?pre @ [''--allow'', ''fs=*''] @ ?post)"
    by (simp add: bakeTokens_def allowTokens_def flagPairs_append flagPairs_simps)
  with assms(3) have args1: "args1 = ?pre @ [''--allow'', ''fs=*''] @ ?post" by simp
  from getArgs_tokens [OF nr1, of def] assms(1) a1
  have s2: "snd (getArgs ?i1 def toolkit amb)
              = Inr (?pre @ [''--allow'', ''fs=*'', ''--allow'', ''fs=*''] @ ?post)"
    by (simp add: bakeTokens_def allowTokens_def flagPairs_append flagPairs_simps
        bakeTokens_allow_update getCommonArgs_allow)
  have ne: "?pre @ [''--allow'', ''fs=*'', ''--allow'', ''fs=*''] @ ?post \<noteq> args1"
  proof
    assume "?pre @ [''--allow'', ''fs=*'', ''--allow'', ''fs=*''] @ ?post = args1"
    then have "length (?pre @ [''--allow'', ''fs=*'', ''--allow'', ''fs=*''] @ ?post)
              = length args1"
      by (rule arg_cong)
    with args1 show False by simp
  qed
  from f1 assms(3) have g1: "getArgs inputs def toolkit amb = (?i1, Inr args1)"
    by (simp add: prod_eq_iff)
  from f2 s2 have g2: "getArgs ?i1 def toolkit amb
      = (?i2, Inr (?pre @ [''--allow'', ''fs=*'', ''--allow'', ''fs=*''] @ ?post))"
    by (simp add: prod_eq_iff)
  have "allow ?i1 = allow inputs @ [''fs=*'']" "allow ?i2 = allow inputs @ [''fs=*'', ''fs=*'']"
    by simp_all
  with g1 g2 ne args1 show ?thesis by blast
qed

theorem getArgs_not_idempotent_witness:
  "buildx_versionSatisfies toolkit_recent ''>=0.17.0''
   \<and> buildx_versionSatisfies toolkit_recent ''>=0.18.0''
   \<and> getArgs example_inputs False toolkit_recent ambient_public
       = (example_inputs\<lparr>allow := [''fs=*'']\<rparr>,
          Inr [''bake'', ''--allow'', ''fs=*'', ''--file'', ''docker-bake.hcl'',
               ''--metadata-file'', ''/tmp/metadata.json'', ''--load'', ''app''])
   \<and> getArgs (example_inputs\<lparr>allow := [''fs=*'']\<rparr>) False toolkit_recent ambient_public
       = (example_inputs\<lparr>allow := [''fs=*'', ''fs=*'']\<rparr>,
          Inr [''bake'', ''--allow'', ''fs=*'', ''--allow'', ''fs=*'', ''--file'',
               ''docker-bake.hcl'', ''--metadata-file'', ''/tmp/metadata.json'', ''--load'',
               ''app''])"
proof -
  have v: "buildx_versionSatisfies toolkit_recent ''>=0.17.0''"
          "buildx_versionSatisfies toolkit_recent ''>=0.18.0''"
    by (simp_all add: toolkit_recent_def toolkit_satisfying_def)
  have r: "snd (getArgs example_inputs False toolkit_recent ambient_public)
       = Inr [''bake'', ''--allow'', ''fs=*'', ''--file'', ''docker-bake.hcl'',
               ''--metadata-file'', ''/tmp/metadata.json'', ''--load'', ''app'']"
    by (simp add: getArgs_def getBakeArgs_def getCommonArgs_def asyncForEach_def
      example_inputs_def toolkit_recent_def toolkit_satisfying_def ambient_public_def
      ambient_with_def noDefaultAttestations_def)
  from getArgs_not_idempotent [OF v r] v show ?thesis
    by (simp add: getArgs_def getBakeArgs_def getCommonArgs_def asyncForEach_def
      example_inputs_def toolkit_recent_def toolkit_satisfying_def ambient_public_def
      ambient_with_def noDefaultAttestations_def)
qed

text \<open>
  Claim C10. Whether \<open>getArgs\<close> returns or throws, it leaves every field of the record
  other than \<open>allow\<close> as it was, and \<open>allow\<close> is the former list with the single entry
  \<open>fs=*\<close> appended when the orchestrator satisfies both \<open>>=0.17.0\<close> and \<open>>=0.18.0\<close>,
  and the former list otherwise. The answers of the version queries are those of one
  orchestrator version, so \<open>>=0.18.0\<close> implies \<open>>=0.17.0\<close>, and then the append happens
  exactly when the orchestrator satisfies \<open>>=0.18.0\<close>.
\<close>

theorem getArgs_frame:
  "fst (getArgs inputs def toolkit amb)
     = inputs\<lparr>allow :=
          (if buildx_versionSatisfies toolkit ''>=0.17.0''
              \<and> buildx_versionSatisfies toolkit ''>=0.18.0''
           then allow inputs @ [''fs=*''] else allow inputs)\<rparr>
   \<and> ((buildx_versionSatisfies toolkit ''>=0.18.0'' \<longrightarrow> buildx_versionSatisfies toolkit ''>=0.17.0'')
        \<longrightarrow> fst (getArgs inputs def toolkit amb)
              = inputs\<lparr>allow :=
                   (if buildx_versionSatisfies toolkit ''>=0.18.0''
                    then allow inputs @ [''fs=*''] else allow inputs)\<rparr>)"
  using getArgs_inputs [of inputs def toolkit amb] by (auto simp: allowAfter_def)

theorem getArgs_frame_witness:
  "buildx_versionSatisfies toolkit_recent ''>=0.18.0''
   \<and> buildx_versionSatisfies toolkit_recent ''>=0.17.0''
   \<and> fst (getArgs example_inputs False toolkit_recent ambient_public)
       = example_inputs\<lparr>allow := [''fs=*'']\<rparr>
   \<and> isl (snd (getArgs example_inputs False toolkit_recent (ambient_with (Some ''yes'') None)))
   \<and> fst (getArgs example_inputs False toolkit_recent (ambient_with (Some ''yes'') None))
       = example_inputs\<lparr>allow := [''fs=*'']\<rparr>
   \<and> \<not> buildx_versionSatisfies (toolkit_satisfying [''>=0.6.0'', ''>=0.10.0'', ''>=0.16.0''])
          ''>=0.18.0''
   \<and> fst (getArgs example_inputs False
             (toolkit_satisfying [''>=0.6.0'', ''>=0.10.0'', ''>=0.16.0'']) ambient_public)
       = example_inputs"
proof -
  have e: "isl (snd (getArgs example_inputs False toolkit_recent
                       (ambient_with (Some ''yes'') None)))"
    by (simp add: getArgs_def getBakeArgs_def asyncForEach_def example_inputs_def
        toolkit_recent_def toolkit_satisfying_def ambient_with_def noDefaultAttestations_def
        parseBool_table_def)
  from e getArgs_frame [of example_inputs False toolkit_recent ambient_public]
    getArgs_frame [of example_inputs False toolkit_recent "ambient_with (Some ''yes'') None"]
    getArgs_frame [of example_inputs False
      "toolkit_satisfying [''>=0.6.0'', ''>=0.10.0'', ''>=0.16.0'']" ambient_public]
  show ?thesis
    by (simp add: example_inputs_def toolkit_recent_def toolkit_satisfying_def)
qed

end
